theory Spec2Isabelle
  imports Main "HOL-Library.Monad_Syntax"
begin

section \<open>LockBox: the credential operations of the server actions\<close>

text \<open>
  The server actions (\<^verbatim>\<open>actions.ts\<close>) read and write one document per user in a
  document store. A user document holds the user's id, the username, the stored master
  password and the ordered list of bank records; every field of a bank record except its
  id holds a ciphertext blob.

  A JavaScript string is modelled as a \<^typ>\<open>string\<close>, one character per code unit, so
  \<open>length\<close> is the string's \<^verbatim>\<open>.length\<close>; code units above \<open>0xFF\<close> are outside
  the model. An optional property (\<^verbatim>\<open>undefined\<close> when absent) is an
  \<^typ>\<open>'a option\<close>, and an empty string is falsy as in the source.
\<close>

subsection \<open>Documents\<close>

record custom_field =
  label :: string
  field_value :: string

text \<open>
  \<^verbatim>\<open>BankFormValues\<close> are the fields of a bank record without its id; a stored
  \<^verbatim>\<open>Bank\<close> has the same fields (each one encrypted) and the id.
\<close>

record bankFormValues =
  bankName :: string
  phoneForOtp :: string
  accountNumber :: string
  netBankingUsername :: string
  netBankingPassword :: "string option"
  mobileBankingUsername :: string
  mobileBankingPassword :: "string option"
  atmPin :: "string option"
  customFields :: "custom_field list option"

record bank = bankFormValues +
  bank_id :: string

record bankListItem =
  item_id :: string
  item_bankName :: string
  item_accountNumber :: string

text \<open>
  The user object returned to a caller is the stored document without its
  \<^verbatim>\<open>masterPassword\<close>; the stored document extends it by that field.
\<close>

record userPublic =
  user_id :: string
  username :: string
  banks :: "bank list"

record user = userPublic +
  masterPassword :: string

record changePasswordFormValues =
  currentPassword :: string
  newPassword :: string
  confirmPassword :: string

record createUserValues =
  new_username :: string
  new_password :: string

subsection \<open>Outcomes\<close>

text \<open>
  An action either returns a result object, \<^verbatim>\<open>{error}\<close> or
  \<^verbatim>\<open>{success, ...}\<close>, or an exception leaves it. \<open>Inl e\<close> is the exception
  \<open>e\<close> reaching the caller, \<open>Inr r\<close> the value returned.
\<close>

datatype exn = PersistenceFailure | DecryptionError | RegExpSyntaxError

datatype 'a result = Error string | Success string 'a

subsection \<open>What the actions import\<close>

text \<open>
  The actions call \<^verbatim>\<open>encrypt\<close> and \<^verbatim>\<open>decrypt\<close> of the cipher module,
  \<^verbatim>\<open>randomUUID\<close>, and the regular-expression constructor; none of them is
  defined in the actions, so they are parameters here.
  \<^item> \<open>encrypt env r p\<close> is the blob \<^verbatim>\<open>encrypt(p)\<close> returns when the random bytes it
    draws are \<open>r\<close>;
  \<^item> \<open>decrypt env b\<close> is \<open>Some p\<close> when \<^verbatim>\<open>decrypt(b)\<close> returns \<open>p\<close> and
    \<open>None\<close> when it throws;
  \<^item> \<open>randomBytes env n\<close> and \<open>randomUUID env n\<close> are the \<open>n\<close>-th draw of the
    process's random source (the world counts the draws);
  \<^item> \<open>regExp_i env src\<close> is \<^verbatim>\<open>new RegExp(src, 'i')\<close>: \<open>None\<close> when the constructor
    throws a SyntaxError, otherwise the test the store applies to a field.
\<close>

record env =
  encrypt :: "string \<Rightarrow> string \<Rightarrow> string"
  decrypt :: "string \<Rightarrow> string option"
  randomBytes :: "nat \<Rightarrow> string"
  randomUUID :: "nat \<Rightarrow> string"
  regExp_i :: "string \<Rightarrow> (string \<Rightarrow> bool) option"

subsection \<open>The store\<close>

text \<open>
  The world is the users collection, whether the database can be reached
  (\<^verbatim>\<open>connectToDatabase\<close> throws otherwise), and the number of random draws made so far.
\<close>

record world =
  db_available :: bool
  users :: "user list"
  rng :: nat

definition getUsersCollection :: "world \<Rightarrow> exn + user list" where
  "getUsersCollection w = (if db_available w then Inr (users w) else Inl PersistenceFailure)"

text \<open>\<^verbatim>\<open>findOne(filter)\<close>: the first document that satisfies the filter.\<close>

definition findOne :: "(user \<Rightarrow> bool) \<Rightarrow> user list \<Rightarrow> user option" where
  "findOne P us = find P us"

text \<open>\<^verbatim>\<open>updateOne(filter, update)\<close>: the first document that satisfies the filter is
  updated, the others are left as they are.\<close>

fun updateOne :: "(user \<Rightarrow> bool) \<Rightarrow> (user \<Rightarrow> user) \<Rightarrow> user list \<Rightarrow> user list" where
  "updateOne P f [] = []"
| "updateOne P f (u # us) = (if P u then f u # us else u # updateOne P f us)"

definition insertOne :: "user \<Rightarrow> user list \<Rightarrow> user list" where
  "insertOne u us = us @ [u]"

text \<open>\<^verbatim>\<open>Array.prototype.findIndex\<close>, with \<open>None\<close> for \<open>-1\<close>.\<close>

fun findIndex :: "('a \<Rightarrow> bool) \<Rightarrow> 'a list \<Rightarrow> nat option" where
  "findIndex P [] = None"
| "findIndex P (x # xs) = (if P x then Some 0 else map_option Suc (findIndex P xs))"

text \<open>A call \<^verbatim>\<open>encrypt(p)\<close> when \<open>n\<close> draws have been made: the blob and the new count.\<close>

definition encrypt_st :: "env \<Rightarrow> string \<Rightarrow> nat \<Rightarrow> string \<times> nat" where
  "encrypt_st env p n = (encrypt env (randomBytes env n) p, Suc n)"

text \<open>\<^verbatim>\<open>v ? encrypt(v) : undefined\<close>: an absent or empty string is falsy.\<close>

definition encrypt_if_truthy :: "env \<Rightarrow> string option \<Rightarrow> nat \<Rightarrow> string option \<times> nat" where
  "encrypt_if_truthy env v n =
     (case v of
        None \<Rightarrow> (None, n)
      | Some s \<Rightarrow> if s = [] then (None, n)
                  else (let (c, n') = encrypt_st env s n in (Some c, n')))"

text \<open>\<^verbatim>\<open>fields.map(field => ({label: encrypt(field.label), value: encrypt(field.value)}))\<close>\<close>

fun encrypt_fields :: "env \<Rightarrow> custom_field list \<Rightarrow> nat \<Rightarrow> custom_field list \<times> nat" where
  "encrypt_fields env [] n = ([], n)"
| "encrypt_fields env (f # fs) n =
     (let (l, n1) = encrypt_st env (label f) n;
          (v, n2) = encrypt_st env (field_value f) n1;
          (rest, n3) = encrypt_fields env fs n2
      in (\<lparr>label = l, field_value = v\<rparr> # rest, n3))"

subsection \<open>Validation schemas\<close>

definition isDigit :: "char \<Rightarrow> bool" where
  "isDigit c = (c \<in> set ''0123456789'')"

text \<open>\<^verbatim>\<open>/^\+?[1-9]\d{1,14}$/\<close>\<close>

definition phone_regex :: "string \<Rightarrow> bool" where
  "phone_regex s =
     (let t = (case s of [] \<Rightarrow> [] | c # r \<Rightarrow> if c = CHR ''+'' then r else s)
      in case t of
           [] \<Rightarrow> False
         | d # ds \<Rightarrow> d \<in> set ''123456789'' \<and> 1 \<le> length ds \<and> length ds \<le> 14 \<and> list_all isDigit ds)"

text \<open>\<^verbatim>\<open>z.string().regex(/^\d{4}$/).optional().or(z.literal(''))\<close>\<close>

definition atmPin_schema :: "string option \<Rightarrow> bool" where
  "atmPin_schema v =
     (case v of None \<Rightarrow> True | Some s \<Rightarrow> (length s = 4 \<and> list_all isDigit s) \<or> s = [])"

definition customFieldSchema :: "custom_field \<Rightarrow> bool" where
  "customFieldSchema f = (1 \<le> length (label f) \<and> 1 \<le> length (field_value f))"

definition bankFormSchema :: "bankFormValues \<Rightarrow> bool" where
  "bankFormSchema v =
     (2 \<le> length (bankName v) \<and>
      phone_regex (phoneForOtp v) \<and>
      5 \<le> length (accountNumber v) \<and> length (accountNumber v) \<le> 20 \<and>
      1 \<le> length (netBankingUsername v) \<and>
      1 \<le> length (mobileBankingUsername v) \<and>
      atmPin_schema (atmPin v) \<and>
      (case customFields v of None \<Rightarrow> True | Some fs \<Rightarrow> list_all customFieldSchema fs))"

definition createUserSchema :: "createUserValues \<Rightarrow> bool" where
  "createUserSchema v = (3 \<le> length (new_username v) \<and> 8 \<le> length (new_password v))"

text \<open>
  \<^verbatim>\<open>changePasswordSchema\<close>: \<open>None\<close> when the values pass, otherwise the text the
  action builds from the first issue, \<^verbatim>\<open>path: message\<close>.
\<close>

definition changePasswordSchema :: "changePasswordFormValues \<Rightarrow> string option" where
  "changePasswordSchema v =
     (if length (currentPassword v) < 1
        then Some ''currentPassword: Current password is required''
      else if length (newPassword v) < 8
        then Some ''newPassword: New password must be at least 8 characters''
      else if newPassword v \<noteq> confirmPassword v
        then Some (''confirmPassword: New passwords don'' @ [CHR 0x27] @ ''t match'')
      else None)"

text \<open>\<^verbatim>\<open>String.prototype.trim\<close>: white space and line terminators are removed from
  both ends.\<close>

definition isWhiteSpace :: "char \<Rightarrow> bool" where
  "isWhiteSpace c =
     (c \<in> {CHR 0x09, CHR 0x0A, CHR 0x0B, CHR 0x0C, CHR 0x0D, CHR 0x20, CHR 0xA0})"

definition trim :: "string \<Rightarrow> string" where
  "trim s = rev (dropWhile isWhiteSpace (rev (dropWhile isWhiteSpace s)))"

subsection \<open>Listing and revealing bank records\<close>

text \<open>
  The actions below leave out \<^verbatim>\<open>revalidatePath\<close>, which touches the page cache and
  not the store. An action that only reads returns its outcome; an action that writes
  returns its outcome and the new world.
\<close>

definition decrypt_item :: "env \<Rightarrow> bank \<Rightarrow> bankListItem option" where
  "decrypt_item env b =
     do {
       n \<leftarrow> decrypt env (bankName b);
       a \<leftarrow> decrypt env (accountNumber b);
       Some \<lparr>item_id = bank_id b, item_bankName = n, item_accountNumber = a\<rparr>
     }"

definition getBanksForUser :: "env \<Rightarrow> string \<Rightarrow> world \<Rightarrow> exn + bankListItem list" where
  "getBanksForUser env userId w =
     (case getUsersCollection w of
        Inl e \<Rightarrow> Inl e
      | Inr coll \<Rightarrow>
          (case findOne (\<lambda>u. user_id u = userId) coll of
             None \<Rightarrow> Inr []
           | Some usr \<Rightarrow>
               (case those (map (decrypt_item env) (banks usr)) of
                  None \<Rightarrow> Inl DecryptionError
                | Some items \<Rightarrow> Inr items)))"

text \<open>\<^verbatim>\<open>v ? decrypt(v) : 'N/A'\<close>\<close>

definition decrypt_or_NA :: "env \<Rightarrow> string option \<Rightarrow> string option" where
  "decrypt_or_NA env v =
     (case v of
        None \<Rightarrow> Some ''N/A''
      | Some s \<Rightarrow> if s = [] then Some ''N/A'' else decrypt env s)"

definition decrypt_field :: "env \<Rightarrow> custom_field \<Rightarrow> custom_field option" where
  "decrypt_field env f =
     do {
       l \<leftarrow> decrypt env (label f);
       v \<leftarrow> decrypt_or_NA env (Some (field_value f));
       Some \<lparr>label = l, field_value = v\<rparr>
     }"

definition decryptedBank :: "env \<Rightarrow> bank \<Rightarrow> bank option" where
  "decryptedBank env b =
     do {
       c1 \<leftarrow> decrypt env (bankName b);
       c2 \<leftarrow> decrypt env (phoneForOtp b);
       c3 \<leftarrow> decrypt env (accountNumber b);
       c4 \<leftarrow> decrypt env (netBankingUsername b);
       p1 \<leftarrow> decrypt_or_NA env (netBankingPassword b);
       c5 \<leftarrow> decrypt env (mobileBankingUsername b);
       p2 \<leftarrow> decrypt_or_NA env (mobileBankingPassword b);
       p3 \<leftarrow> decrypt_or_NA env (atmPin b);
       cf \<leftarrow> (case customFields b of
               None \<Rightarrow> Some None
             | Some fs \<Rightarrow> map_option Some (those (map (decrypt_field env) fs)));
       Some (b\<lparr>bankName := c1, phoneForOtp := c2, accountNumber := c3,
               netBankingUsername := c4, netBankingPassword := Some p1,
               mobileBankingUsername := c5, mobileBankingPassword := Some p2,
               atmPin := Some p3, customFields := cf\<rparr>)
     }"

definition decryptBank :: "env \<Rightarrow> string \<Rightarrow> string \<Rightarrow> world \<Rightarrow> exn + bank result" where
  "decryptBank env userId bankId w =
     (case getUsersCollection w of
        Inl e \<Rightarrow> Inl e
      | Inr coll \<Rightarrow>
          (case findOne (\<lambda>u. user_id u = userId) coll of
             None \<Rightarrow> Inr (Error ''User not found.'')
           | Some usr \<Rightarrow>
               (case find (\<lambda>b. bank_id b = bankId) (banks usr) of
                  None \<Rightarrow> Inr (Error ''Bank not found.'')
                | Some b \<Rightarrow>
                    (case decryptedBank env b of
                       None \<Rightarrow> Inl DecryptionError
                     | Some d \<Rightarrow> Inr (Success ''Bank decrypted.'' d)))))"

subsection \<open>Adding, updating and deleting bank records\<close>

definition newBank :: "env \<Rightarrow> bankFormValues \<Rightarrow> nat \<Rightarrow> bank \<times> nat" where
  "newBank env data n0 =
     (let i = randomUUID env n0;
          (c1, n1) = encrypt_st env (bankName data) (Suc n0);
          (c2, n2) = encrypt_st env (phoneForOtp data) n1;
          (c3, n3) = encrypt_st env (accountNumber data) n2;
          (c4, n4) = encrypt_st env (netBankingUsername data) n3;
          (p1, n5) = encrypt_if_truthy env (netBankingPassword data) n4;
          (c5, n6) = encrypt_st env (mobileBankingUsername data) n5;
          (p2, n7) = encrypt_if_truthy env (mobileBankingPassword data) n6;
          (p3, n8) = encrypt_if_truthy env (atmPin data) n7;
          (cf, n9) = (case customFields data of
                        None \<Rightarrow> (None, n8)
                      | Some fs \<Rightarrow> (let (efs, m) = encrypt_fields env fs n8 in (Some efs, m)))
      in (\<lparr>bankName = c1, phoneForOtp = c2, accountNumber = c3, netBankingUsername = c4,
           netBankingPassword = p1, mobileBankingUsername = c5, mobileBankingPassword = p2,
           atmPin = p3, customFields = cf, bank_id = i\<rparr>, n9))"

definition addBank :: "env \<Rightarrow> string \<Rightarrow> bankFormValues \<Rightarrow> world \<Rightarrow> (exn + unit result) \<times> world" where
  "addBank env userId vals w =
     (if \<not> bankFormSchema vals then (Inr (Error ''Invalid data provided.''), w)
      else
        (case getUsersCollection w of
           Inl e \<Rightarrow> (Inl e, w)
         | Inr coll \<Rightarrow>
             (case findOne (\<lambda>u. user_id u = userId) coll of
                None \<Rightarrow> (Inr (Error ''User not found.''), w)
              | Some usr \<Rightarrow>
                  (let (b, n) = newBank env vals (rng w)
                   in (Inr (Success ''Bank added successfully.'' ()),
                       w\<lparr>users := updateOne (\<lambda>u. user_id u = userId)
                                     (\<lambda>u. u\<lparr>banks := banks u @ [b]\<rparr>) coll,
                         rng := n\<rparr>)))))"

text \<open>\<^verbatim>\<open>v && v.trim() !== ''\<close>\<close>

definition is_provided :: "string option \<Rightarrow> bool" where
  "is_provided v = (case v of None \<Rightarrow> False | Some s \<Rightarrow> s \<noteq> [] \<and> trim s \<noteq> [])"

text \<open>An optional secret of the record under update: a provided value is encrypted, any other
  leaves the property of the existing record as it is.\<close>

definition encrypt_if_provided ::
  "env \<Rightarrow> string option \<Rightarrow> string option \<Rightarrow> nat \<Rightarrow> string option \<times> nat" where
  "encrypt_if_provided env v existing n =
     (case v of
        None \<Rightarrow> (existing, n)
      | Some s \<Rightarrow> if s \<noteq> [] \<and> trim s \<noteq> []
                  then (let (c, n') = encrypt_st env s n in (Some c, n'))
                  else (existing, n))"

definition updatedBank :: "env \<Rightarrow> bank \<Rightarrow> bankFormValues \<Rightarrow> nat \<Rightarrow> bank \<times> nat" where
  "updatedBank env existingBank data n0 =
     (let (c1, n1) = encrypt_st env (bankName data) n0;
          (c2, n2) = encrypt_st env (phoneForOtp data) n1;
          (c3, n3) = encrypt_st env (accountNumber data) n2;
          (c4, n4) = encrypt_st env (netBankingUsername data) n3;
          (c5, n5) = encrypt_st env (mobileBankingUsername data) n4;
          (p1, n6) = encrypt_if_provided env (netBankingPassword data)
                       (netBankingPassword existingBank) n5;
          (p2, n7) = encrypt_if_provided env (mobileBankingPassword data)
                       (mobileBankingPassword existingBank) n6;
          (p3, n8) = encrypt_if_provided env (atmPin data) (atmPin existingBank) n7;
          (cf, n9) = (case customFields data of
                        None \<Rightarrow> (customFields existingBank, n8)
                      | Some fs \<Rightarrow> (let (efs, m) = encrypt_fields env fs n8 in (Some efs, m)))
      in (existingBank\<lparr>bankName := c1, phoneForOtp := c2, accountNumber := c3,
                        netBankingUsername := c4, mobileBankingUsername := c5,
                        netBankingPassword := p1, mobileBankingPassword := p2,
                        atmPin := p3, customFields := cf\<rparr>, n9))"

definition updateBank ::
  "env \<Rightarrow> string \<Rightarrow> string \<Rightarrow> bankFormValues \<Rightarrow> world \<Rightarrow> (exn + unit result) \<times> world" where
  "updateBank env userId bankId vals w =
     (if \<not> bankFormSchema vals then (Inr (Error ''Invalid data provided.''), w)
      else
        (case getUsersCollection w of
           Inl e \<Rightarrow> (Inl e, w)
         | Inr coll \<Rightarrow>
             (case findOne (\<lambda>u. user_id u = userId) coll of
                None \<Rightarrow> (Inr (Error ''User not found.''), w)
              | Some usr \<Rightarrow>
                  (case findIndex (\<lambda>b. bank_id b = bankId) (banks usr) of
                     None \<Rightarrow> (Inr (Error ''Bank not found.''), w)
                   | Some bankIndex \<Rightarrow>
                       (let (b, n) = updatedBank env (banks usr ! bankIndex) vals (rng w)
                        in (Inr (Success ''Bank updated successfully.'' ()),
                            w\<lparr>users := updateOne (\<lambda>u. user_id u = userId)
                                          (\<lambda>u. u\<lparr>banks := (banks usr)[bankIndex := b]\<rparr>) coll,
                              rng := n\<rparr>))))))"

definition deleteBank :: "string \<Rightarrow> string \<Rightarrow> world \<Rightarrow> (exn + unit result) \<times> world" where
  "deleteBank userId bankId w =
     (case getUsersCollection w of
        Inl e \<Rightarrow> (Inl e, w)
      | Inr coll \<Rightarrow>
          (case findOne (\<lambda>u. user_id u = userId) coll of
             None \<Rightarrow> (Inr (Error ''User not found.''), w)
           | Some usr \<Rightarrow>
               (let initialBankCount = length (banks usr);
                    updatedBanks = filter (\<lambda>b. bank_id b \<noteq> bankId) (banks usr)
                in if length updatedBanks = initialBankCount
                   then (Inr (Error ''Bank not found.''), w)
                   else (Inr (Success ''Bank deleted successfully.'' ()),
                         w\<lparr>users := updateOne (\<lambda>u. user_id u = userId)
                                       (\<lambda>u. u\<lparr>banks := updatedBanks\<rparr>) coll\<rparr>))))"

subsection \<open>Users and the master password\<close>

text \<open>\<^verbatim>\<open>toPlainObject\<close> followed by the removal of \<^verbatim>\<open>masterPassword\<close>.\<close>

definition userToReturn :: "user \<Rightarrow> userPublic" where
  "userToReturn u = userPublic.truncate u"

text \<open>\<^verbatim>\<open>{ username: { $regex: new RegExp(`^${username}$`, 'i') } }\<close>: the source of
  the expression is the username between the two anchors, as it is.\<close>

definition username_pattern :: "string \<Rightarrow> string" where
  "username_pattern uname = ''^'' @ uname @ ''$''"

definition verifyMasterPassword :: "env \<Rightarrow> string \<Rightarrow> string \<Rightarrow> world \<Rightarrow> exn + userPublic result" where
  "verifyMasterPassword env uname password w =
     (if uname = [] \<or> password = [] then Inr (Error ''Username and password are required.'')
      else
        (case getUsersCollection w of
           Inl e \<Rightarrow> Inl e
         | Inr coll \<Rightarrow>
             (case regExp_i env (username_pattern uname) of
                None \<Rightarrow> Inl RegExpSyntaxError
              | Some test \<Rightarrow>
                  (case findOne (\<lambda>u. test (username u)) coll of
                     None \<Rightarrow> Inr (Error ''Invalid username or password.'')
                   | Some usr \<Rightarrow>
                       if masterPassword usr = [] then Inr (Error ''Invalid username or password.'')
                       else
                         (case decrypt env (masterPassword usr) of
                            Some decryptedPassword \<Rightarrow>
                              if decryptedPassword = password
                              then Inr (Success ''Login successful.'' (userToReturn usr))
                              else Inr (Error ''Invalid username or password.'')
                          | None \<Rightarrow>
                              if masterPassword usr = password
                              then Inr (Success ''Login successful.'' (userToReturn usr))
                              else Inr (Error ''Invalid username or password.''))))))"

definition createUser :: "env \<Rightarrow> createUserValues \<Rightarrow> world \<Rightarrow> (exn + userPublic result) \<times> world" where
  "createUser env vals w =
     (if \<not> createUserSchema vals
      then (Inr (Error ''Invalid data provided. Username must be at least 3 characters and password at least 8.''), w)
      else
        (case getUsersCollection w of
           Inl e \<Rightarrow> (Inl e, w)
         | Inr coll \<Rightarrow>
             (case regExp_i env (username_pattern (new_username vals)) of
                None \<Rightarrow> (Inl RegExpSyntaxError, w)
              | Some test \<Rightarrow>
                  (case findOne (\<lambda>u. test (username u)) coll of
                     Some existingUser \<Rightarrow> (Inr (Error ''Username already taken.''), w)
                   | None \<Rightarrow>
                       (let i = randomUUID env (rng w);
                            (c, n) = encrypt_st env (new_password vals) (Suc (rng w));
                            newUser = \<lparr>user_id = i, username = new_username vals, banks = [],
                                       masterPassword = c\<rparr>
                        in (Inr (Success (''User '' @ [CHR 0x27] @ new_username vals @ [CHR 0x27]
                                            @ '' created successfully! You can now log in.'')
                                   (userToReturn newUser)),
                            w\<lparr>users := insertOne newUser coll, rng := n\<rparr>))))))"

text \<open>The check of the current password in \<^verbatim>\<open>changeMasterPassword\<close>: the
  \<^verbatim>\<open>try\<close> block decrypts a non-empty stored value and compares, the
  \<^verbatim>\<open>catch\<close> block compares the stored value itself.\<close>

definition isPasswordValid :: "env \<Rightarrow> user \<Rightarrow> string \<Rightarrow> bool" where
  "isPasswordValid env usr current =
     (if masterPassword usr = [] then False
      else
        (case decrypt env (masterPassword usr) of
           Some decryptedPassword \<Rightarrow> decryptedPassword = current
         | None \<Rightarrow> masterPassword usr = current))"

definition changeMasterPassword ::
  "env \<Rightarrow> string \<Rightarrow> changePasswordFormValues \<Rightarrow> world \<Rightarrow> (exn + unit result) \<times> world" where
  "changeMasterPassword env userId vals w =
     (case changePasswordSchema vals of
        Some msg \<Rightarrow> (Inr (Error msg), w)
      | None \<Rightarrow>
          (case getUsersCollection w of
             Inl e \<Rightarrow> (Inl e, w)
           | Inr coll \<Rightarrow>
               (case findOne (\<lambda>u. user_id u = userId) coll of
                  None \<Rightarrow> (Inr (Error ''User not found.''), w)
                | Some usr \<Rightarrow>
                    if \<not> isPasswordValid env usr (currentPassword vals)
                    then (Inr (Error ''Incorrect current password.''), w)
                    else
                      (let (c, n) = encrypt_st env (newPassword vals) (rng w)
                       in (Inr (Success ''Master password updated successfully.'' ()),
                           w\<lparr>users := updateOne (\<lambda>u. user_id u = userId)
                                         (\<lambda>u. u\<lparr>masterPassword := c\<rparr>) coll,
                             rng := n\<rparr>)))))"

subsection \<open>The cipher module\<close>

text \<open>
  Modelled from the spec: the cipher module (\<^verbatim>\<open>encryption.ts\<close>, with
  \<^verbatim>\<open>encrypt\<close> and \<^verbatim>\<open>decrypt\<close>) is not among the sources. The spec gives it as one
  symmetric cipher call under a key fixed at process start; each call of
  \<^verbatim>\<open>encrypt\<close> draws a fresh random initialization vector and the blob embeds the vector
  together with the encrypted bytes; \<^verbatim>\<open>decrypt\<close> fails with a DecryptionError on a
  malformed blob or a key that does not match. The cipher itself is a parameter: the
  length of its initialization vector, and the two directions of the cipher call.
\<close>

record cipher =
  iv_length :: nat
  encipher :: "string \<Rightarrow> string \<Rightarrow> string \<Rightarrow> string"
  decipher :: "string \<Rightarrow> string \<Rightarrow> string \<Rightarrow> string option"

text \<open>Modelled from the spec: \<^verbatim>\<open>encrypt\<close> of the missing cipher module. The blob is
  the initialization vector the call drew, followed by the encrypted bytes.\<close>

definition encryption_encrypt :: "cipher \<Rightarrow> string \<Rightarrow> string \<Rightarrow> string \<Rightarrow> string" where
  "encryption_encrypt c key iv plaintext = iv @ encipher c key iv plaintext"

text \<open>Modelled from the spec: \<^verbatim>\<open>decrypt\<close> of the missing cipher module. A blob too
  short to hold a vector is malformed; otherwise the vector is split off and the rest is
  deciphered, which fails on bytes the key does not fit. \<open>None\<close> is the DecryptionError.\<close>

definition encryption_decrypt :: "cipher \<Rightarrow> string \<Rightarrow> string \<Rightarrow> string option" where
  "encryption_decrypt c key blob =
     (if length blob < iv_length c then None
      else decipher c key (take (iv_length c) blob) (drop (iv_length c) blob))"

text \<open>
  A stand-in cipher, to run the definitions on concrete inputs: the encrypted bytes are the
  key followed by the reversed plaintext, and deciphering refuses bytes that do not start
  with the key. It is not the cipher of the application.
\<close>

definition toy_cipher :: cipher where
  "toy_cipher =
     \<lparr>iv_length = 2,
      encipher = (\<lambda>key iv p. key @ rev p),
      decipher = (\<lambda>key iv c. if take (length key) c = key
                              then Some (rev (drop (length key) c)) else None)\<rparr>"

subsection \<open>A fragment of the regular expressions\<close>

text \<open>
  The regular-expression engine is not part of the sources. To run the username lookup on
  concrete inputs, this is the engine on a fragment of the expressions: the source is
  \<^verbatim>\<open>^\<close>, a sequence of atoms, \<^verbatim>\<open>$\<close>; an atom is a letter, a digit, \<^verbatim>\<open>_\<close>,
  \<^verbatim>\<open>-\<close> or \<^verbatim>\<open>@\<close> (matching itself, letters without regard to case under the flag
  \<^verbatim>\<open>i\<close>) or \<^verbatim>\<open>.\<close> (matching any character but a line terminator), and may be
  followed by one of the quantifiers \<^verbatim>\<open>*\<close>, \<^verbatim>\<open>+\<close>, \<^verbatim>\<open>?\<close>. Between the two
  anchors the whole subject has to be matched, so a quantified atom may give characters
  back to the atoms after it. The subjects are usernames without line terminators. A source
  outside the fragment is refused, which is stricter than the engine; nothing is concluded
  from the fragment there.
\<close>

datatype rx_atom = RxChar char | RxAny

datatype rx_quant = RxOne | RxStar | RxPlus | RxOpt

definition toUpperCase_char :: "char \<Rightarrow> char" where
  "toUpperCase_char c =
     (case map_of (zip ''abcdefghijklmnopqrstuvwxyz'' ''ABCDEFGHIJKLMNOPQRSTUVWXYZ'') c of
        None \<Rightarrow> c
      | Some d \<Rightarrow> d)"

fun rx_atom_matches :: "rx_atom \<Rightarrow> char \<Rightarrow> bool" where
  "rx_atom_matches (RxChar p) c = (toUpperCase_char p = toUpperCase_char c)"
| "rx_atom_matches RxAny c = (c \<noteq> CHR 0x0A \<and> c \<noteq> CHR 0x0D)"

fun rx_match :: "(rx_atom \<times> rx_quant) list \<Rightarrow> string \<Rightarrow> bool" where
  "rx_match [] s = (s = [])"
| "rx_match ((a, RxOne) # r) s =
     (case s of [] \<Rightarrow> False | c # cs \<Rightarrow> rx_atom_matches a c \<and> rx_match r cs)"
| "rx_match ((a, RxOpt) # r) s =
     (rx_match r s \<or> (case s of [] \<Rightarrow> False | c # cs \<Rightarrow> rx_atom_matches a c \<and> rx_match r cs))"
| "rx_match ((a, RxStar) # r) s =
     (rx_match r s \<or>
      (case s of [] \<Rightarrow> False | c # cs \<Rightarrow> rx_atom_matches a c \<and> rx_match ((a, RxStar) # r) cs))"
| "rx_match ((a, RxPlus) # r) s =
     (case s of [] \<Rightarrow> False | c # cs \<Rightarrow> rx_atom_matches a c \<and> rx_match ((a, RxStar) # r) cs)"

definition rx_atom_of :: "char \<Rightarrow> rx_atom option" where
  "rx_atom_of c =
     (if c = CHR ''.'' then Some RxAny
      else if c \<in> set ''abcdefghijklmnopqrstuvwxyzABCDEFGHIJKLMNOPQRSTUVWXYZ0123456789_-@''
        then Some (RxChar c)
      else None)"

definition rx_quant_of :: "char \<Rightarrow> rx_quant option" where
  "rx_quant_of c =
     (if c = CHR ''*'' then Some RxStar
      else if c = CHR ''+'' then Some RxPlus
      else if c = CHR ''?'' then Some RxOpt
      else None)"

fun rx_parse :: "string \<Rightarrow> (rx_atom \<times> rx_quant) list option" where
  "rx_parse [] = Some []"
| "rx_parse [c] = map_option (\<lambda>a. [(a, RxOne)]) (rx_atom_of c)"
| "rx_parse (c # q # cs) =
     (case rx_atom_of c of
        None \<Rightarrow> None
      | Some a \<Rightarrow>
          (case rx_quant_of q of
             Some k \<Rightarrow> map_option ((#) (a, k)) (rx_parse cs)
           | None \<Rightarrow> map_option ((#) (a, RxOne)) (rx_parse (q # cs))))"

definition regExp_i_fragment :: "string \<Rightarrow> (string \<Rightarrow> bool) option" where
  "regExp_i_fragment src =
     (case src of
        [] \<Rightarrow> None
      | c # rest \<Rightarrow>
          if c = CHR ''^'' \<and> rest \<noteq> [] \<and> last rest = CHR ''$''
          then map_option rx_match (rx_parse (butlast rest))
          else None)"

subsection \<open>A concrete environment\<close>

text \<open>
  The environment the concrete runs below use: the cipher module over the stand-in cipher
  with the key \<^verbatim>\<open>K\<close>, a random source that counts, and the fragment of the regular
  expressions.
\<close>

definition sample_env :: env where
  "sample_env =
     \<lparr>encrypt = encryption_encrypt toy_cipher ''K'',
      decrypt = encryption_decrypt toy_cipher ''K'',
      randomBytes = (\<lambda>n. [CHR ''r'', ''0123456789abcdef'' ! (n mod 16)]),
      randomUUID = (\<lambda>n. ''id-'' @ [''0123456789abcdef'' ! (n mod 16)]),
      regExp_i = regExp_i_fragment\<rparr>"

subsection \<open>Notions the properties are stated with\<close>

text \<open>The bank list stored for a user id (empty when no document has the id).\<close>

definition banksOf :: "world \<Rightarrow> string \<Rightarrow> bank list" where
  "banksOf w userId =
     (case findOne (\<lambda>u. user_id u = userId) (users w) of None \<Rightarrow> [] | Some u \<Rightarrow> banks u)"

text \<open>The condition of the spec on an optional secret: non-empty after trimming.\<close>

definition non_empty_after_trim :: "string option \<Rightarrow> bool" where
  "non_empty_after_trim v = (case v of None \<Rightarrow> False | Some s \<Rightarrow> trim s \<noteq> [])"

text \<open>\<open>c\<close> is an encryption of \<open>p\<close> under random bytes drawn between the worlds \<open>w\<close>
  and \<open>w'\<close>, that is, during the call that led from one to the other.\<close>

definition fresh_encryption :: "env \<Rightarrow> world \<Rightarrow> world \<Rightarrow> string \<Rightarrow> string \<Rightarrow> bool" where
  "fresh_encryption env w w' p c = (\<exists>k\<in>{rng w..<rng w'}. c = encrypt env (randomBytes env k) p)"

text \<open>The number of draws an optional secret of an update takes.\<close>

definition draws :: "string option \<Rightarrow> nat" where
  "draws v = (if is_provided v then 1 else 0)"

text \<open>The update policy of the spec for one optional secret: a value that is non-empty
  after trimming is replaced by a fresh encryption of it, any other value keeps the stored
  ciphertext.\<close>

definition optional_secret_rule ::
  "env \<Rightarrow> world \<Rightarrow> world \<Rightarrow> string option \<Rightarrow> string option \<Rightarrow> string option \<Rightarrow> bool" where
  "optional_secret_rule env w w' incoming old new =
     (if non_empty_after_trim incoming
      then \<exists>s c. incoming = Some s \<and> new = Some c \<and> fresh_encryption env w w' s c
      else new = old)"

text \<open>The comparison of the spec against a stored master password: decrypt first and compare
  the decrypted value; when decryption throws, compare the stored value itself.\<close>

definition password_matches :: "env \<Rightarrow> string \<Rightarrow> string \<Rightarrow> bool" where
  "password_matches env stored supplied =
     (case decrypt env stored of
        Some decrypted \<Rightarrow> decrypted = supplied
      | None \<Rightarrow> stored = supplied)"

text \<open>
  The invariant of the data model on stored bank records: every ciphertext field that is
  present decrypts under the configured key.
\<close>

definition ciphertext_ok :: "env \<Rightarrow> string \<Rightarrow> bool" where
  "ciphertext_ok env c = (decrypt env c \<noteq> None)"

definition bank_ciphertexts_ok :: "env \<Rightarrow> bank \<Rightarrow> bool" where
  "bank_ciphertexts_ok env b =
     (ciphertext_ok env (bankName b) \<and>
      ciphertext_ok env (phoneForOtp b) \<and>
      ciphertext_ok env (accountNumber b) \<and>
      ciphertext_ok env (netBankingUsername b) \<and>
      ciphertext_ok env (mobileBankingUsername b) \<and>
      (case netBankingPassword b of None \<Rightarrow> True | Some c \<Rightarrow> ciphertext_ok env c) \<and>
      (case mobileBankingPassword b of None \<Rightarrow> True | Some c \<Rightarrow> ciphertext_ok env c) \<and>
      (case atmPin b of None \<Rightarrow> True | Some c \<Rightarrow> ciphertext_ok env c) \<and>
      (case customFields b of
         None \<Rightarrow> True
       | Some fs \<Rightarrow> list_all (\<lambda>f. ciphertext_ok env (label f) \<and> ciphertext_ok env (field_value f)) fs))"

definition store_ciphertexts_ok :: "env \<Rightarrow> world \<Rightarrow> bool" where
  "store_ciphertexts_ok env w = list_all (\<lambda>u. list_all (bank_ciphertexts_ok env) (banks u)) (users w)"

subsection \<open>Concrete documents\<close>

definition sample_bank :: bank where
  "sample_bank =
     \<lparr>bankName = ''r0KknaB'', phoneForOtp = ''r1K1119'', accountNumber = ''r2K54321'',
      netBankingUsername = ''r3Kten'', netBankingPassword = Some ''r4Kwpn'',
      mobileBankingUsername = ''r5Kbom'', mobileBankingPassword = None,
      atmPin = Some ''r6K4321'', customFields = Some [\<lparr>label = ''r7Kl'', field_value = ''r8Kv''\<rparr>],
      bank_id = ''b1''\<rparr>"

definition sample_user :: user where
  "sample_user =
     \<lparr>user_id = ''u1'', username = ''alice'',
      banks = [sample_bank\<lparr>bank_id := ''b0''\<rparr>, sample_bank],
      masterPassword = ''r9K321drowssap''\<rparr>"

definition sample_world :: world where
  "sample_world = \<lparr>db_available = True, users = [sample_user], rng = 10\<rparr>"

definition sample_form :: bankFormValues where
  "sample_form =
     \<lparr>bankName = ''Bank2'', phoneForOtp = ''+9112'', accountNumber = ''54321'',
      netBankingUsername = ''net'', netBankingPassword = Some ''new'',
      mobileBankingUsername = ''mob'', mobileBankingPassword = Some ''  '',
      atmPin = Some [], customFields = None\<rparr>"

text \<open>A legacy account, whose master password was stored before encryption existed, beside
  the sample user.\<close>

definition legacy_user :: user where
  "legacy_user = \<lparr>user_id = ''u2'', username = ''bob'', banks = [], masterPassword = ''hunter22''\<rparr>"

definition sample_change :: changePasswordFormValues where
  "sample_change = \<lparr>currentPassword = ''hunter22'', newPassword = ''correct horse'',
                     confirmPassword = ''correct horse''\<rparr>"

definition legacy_world :: world where
  "legacy_world = \<lparr>db_available = True, users = [sample_user, legacy_user], rng = 10\<rparr>"

text \<open>A store with a bank record whose name does not decrypt under the key.\<close>

definition unreadable_world :: world where
  "unreadable_world =
     \<lparr>db_available = True,
      users = [\<lparr>user_id = ''u3'', username = ''carol'',
                banks = [sample_bank\<lparr>bankName := ''HDFC''\<rparr>],
                masterPassword = ''r9K321drowssap''\<rparr>],
      rng = 10\<rparr>"

definition empty_world :: world where
  "empty_world = \<lparr>db_available = True, users = [], rng = 0\<rparr>"

text \<open>The scenario of the spec: the user \<^verbatim>\<open>alice\<close> is created in the empty store and adds
  one bank record with the ATM PIN \<^verbatim>\<open>1234\<close>.\<close>

definition scenario_form :: "string \<Rightarrow> bankFormValues" where
  "scenario_form pin =
     \<lparr>bankName = ''Bank'', phoneForOtp = ''+9112'', accountNumber = ''54321'',
      netBankingUsername = ''net'', netBankingPassword = Some ''npw'',
      mobileBankingUsername = ''mob'', mobileBankingPassword = None,
      atmPin = Some pin, customFields = None\<rparr>"

definition scenario_world :: world where
  "scenario_world =
     snd (addBank sample_env ''id-0'' (scenario_form ''1234'')
       (snd (createUser sample_env \<lparr>new_username = ''alice'', new_password = ''password123''\<rparr>
          empty_world)))"

section \<open>Properties\<close>

subsection \<open>The store and the helpers\<close>

lemma findOne_updateOne:
  "findOne P us = Some u \<Longrightarrow> P (f u) \<Longrightarrow> findOne P (updateOne P f us) = Some (f u)"
  by (induction us) (auto simp: findOne_def split: if_splits)

lemma findOne_SomeD: "findOne P us = Some u \<Longrightarrow> P u \<and> u \<in> set us"
  by (induction us) (auto simp: findOne_def split: if_splits)

lemma findIndex_Some:
  "findIndex P xs = Some i \<Longrightarrow> i < length xs \<and> P (xs ! i) \<and> (\<forall>j<i. \<not> P (xs ! j))"
proof (induction xs arbitrary: i)
  case Nil
  then show ?case by simp
next
  case (Cons x xs)
  show ?case
  proof (cases "P x")
    case True
    with Cons.prems show ?thesis by simp
  next
    case False
    with Cons.prems obtain k where k: "findIndex P xs = Some k" "i = Suc k"
      by auto
    from Cons.IH[OF k(1)] False k(2) show ?thesis
      by (auto simp: less_Suc_eq_0_disj)
  qed
qed

lemma banksOf_updateOne:
  assumes "findOne (\<lambda>u. user_id u = userId) us = Some usr"
  shows "banksOf (w\<lparr>users := updateOne (\<lambda>u. user_id u = userId) (\<lambda>u. u\<lparr>banks := bs\<rparr>) us, rng := n\<rparr>) userId = bs"
    and "banksOf (w\<lparr>users := updateOne (\<lambda>u. user_id u = userId) (\<lambda>u. u\<lparr>banks := bs\<rparr>) us\<rparr>) userId = bs"
proof -
  have "user_id (usr\<lparr>banks := bs\<rparr>) = userId"
    using findOne_SomeD[OF assms] by simp
  then have "findOne (\<lambda>u. user_id u = userId)
               (updateOne (\<lambda>u. user_id u = userId) (\<lambda>u. u\<lparr>banks := bs\<rparr>) us) = Some (usr\<lparr>banks := bs\<rparr>)"
    using findOne_updateOne[OF assms, of "\<lambda>u. u\<lparr>banks := bs\<rparr>"] by simp
  then show "banksOf (w\<lparr>users := updateOne (\<lambda>u. user_id u = userId) (\<lambda>u. u\<lparr>banks := bs\<rparr>) us, rng := n\<rparr>) userId = bs"
    and "banksOf (w\<lparr>users := updateOne (\<lambda>u. user_id u = userId) (\<lambda>u. u\<lparr>banks := bs\<rparr>) us\<rparr>) userId = bs"
    by (simp_all add: banksOf_def)
qed

lemma those_map_Some:
  "(\<And>x. x \<in> set xs \<Longrightarrow> f x \<noteq> None) \<Longrightarrow> those (map f xs) = Some (map (\<lambda>x. the (f x)) xs)"
  by (induction xs) (auto split: option.splits)

lemma trim_Nil: "trim [] = []"
  by (simp add: trim_def)

lemma is_provided_iff: "is_provided v = non_empty_after_trim v"
  by (auto simp: is_provided_def non_empty_after_trim_def trim_Nil split: option.splits)

lemma snd_encrypt_fields: "snd (encrypt_fields env fs n) = n + 2 * length fs"
  by (induction fs arbitrary: n) (simp_all add: encrypt_st_def case_prod_unfold Let_def)

lemma encrypt_if_provided_eq:
  "encrypt_if_provided env v old n =
     (if is_provided v then (Some (encrypt env (randomBytes env n) (the v)), Suc n) else (old, n))"
  by (auto simp: encrypt_if_provided_def is_provided_def encrypt_st_def split: option.splits)

lemma updatedBank_eq:
  "updatedBank env b v n =
    (let k1 = n + 5; k2 = k1 + draws (netBankingPassword v); k3 = k2 + draws (mobileBankingPassword v);
         k4 = k3 + draws (atmPin v) in
     (b\<lparr>bankName := encrypt env (randomBytes env n) (bankName v),
        phoneForOtp := encrypt env (randomBytes env (n + 1)) (phoneForOtp v),
        accountNumber := encrypt env (randomBytes env (n + 2)) (accountNumber v),
        netBankingUsername := encrypt env (randomBytes env (n + 3)) (netBankingUsername v),
        mobileBankingUsername := encrypt env (randomBytes env (n + 4)) (mobileBankingUsername v),
        netBankingPassword := (if is_provided (netBankingPassword v)
            then Some (encrypt env (randomBytes env k1) (the (netBankingPassword v)))
            else netBankingPassword b),
        mobileBankingPassword := (if is_provided (mobileBankingPassword v)
            then Some (encrypt env (randomBytes env k2) (the (mobileBankingPassword v)))
            else mobileBankingPassword b),
        atmPin := (if is_provided (atmPin v)
            then Some (encrypt env (randomBytes env k3) (the (atmPin v)))
            else atmPin b),
        customFields := (case customFields v of None \<Rightarrow> customFields b
            | Some fs \<Rightarrow> Some (fst (encrypt_fields env fs k4)))\<rparr>,
      k4 + (case customFields v of None \<Rightarrow> 0 | Some fs \<Rightarrow> 2 * length fs)))"
  unfolding updatedBank_def encrypt_if_provided_eq
  by (simp add: encrypt_st_def Let_def draws_def case_prod_unfold snd_encrypt_fields numeral_eq_Suc split: option.splits)

lemma updateBank_success:
  assumes "fst (updateBank env userId bankId vals w) = Inr (Success m x)"
  shows "\<exists>usr i. findOne (\<lambda>u. user_id u = userId) (users w) = Some usr \<and>
           findIndex (\<lambda>b. bank_id b = bankId) (banks usr) = Some i \<and>
           banksOf (snd (updateBank env userId bankId vals w)) userId =
             (banks usr)[i := fst (updatedBank env (banks usr ! i) vals (rng w))] \<and>
           rng (snd (updateBank env userId bankId vals w)) =
             snd (updatedBank env (banks usr ! i) vals (rng w)) \<and>
           bankFormSchema vals \<and> db_available w"
  using assms
  by (auto simp: updateBank_def getUsersCollection_def banksOf_updateOne
      split: if_splits sum.splits option.splits prod.splits)

lemma fresh_encryptionI:
  "rng w \<le> k \<Longrightarrow> k < rng w' \<Longrightarrow> c = encrypt env (randomBytes env k) p \<Longrightarrow> fresh_encryption env w w' p c"
  by (auto simp: fresh_encryption_def)

lemma optional_secret_ruleI:
  assumes "new = (if is_provided v then Some (encrypt env (randomBytes env k) (the v)) else old)"
    and "rng w \<le> k" and "is_provided v \<Longrightarrow> k < rng w'"
  shows "optional_secret_rule env w w' v old new"
proof (cases "non_empty_after_trim v")
  case True
  then obtain s where s: "v = Some s"
    by (auto simp: non_empty_after_trim_def split: option.splits)
  from True have "is_provided v" by (simp add: is_provided_iff)
  with assms s True show ?thesis
    by (auto simp: optional_secret_rule_def intro!: fresh_encryptionI)
next
  case False
  with assms show ?thesis
    by (simp add: optional_secret_rule_def is_provided_iff)
qed

lemma decrypt_item_Some:
  "decrypt env (bankName b) = Some n \<Longrightarrow> decrypt env (accountNumber b) = Some a \<Longrightarrow>
   decrypt_item env b = Some \<lparr>item_id = bank_id b, item_bankName = n, item_accountNumber = a\<rparr>"
  by (simp add: decrypt_item_def)

subsection \<open>Concrete runs\<close>

lemmas sample_defs = sample_env_def sample_world_def sample_user_def sample_form_def sample_bank_def
  encryption_encrypt_def encryption_decrypt_def toy_cipher_def

lemma sample_db: "db_available sample_world"
  by (simp add: sample_world_def)

lemma sample_findOne_id:
  "findOne (\<lambda>u. user_id u = ''u1'') (users sample_world) = Some sample_user"
  by (simp add: findOne_def sample_world_def sample_user_def)

lemma sample_update_ok:
  "fst (updateBank sample_env ''u1'' ''b1'' sample_form sample_world) =
     Inr (Success ''Bank updated successfully.'' ())"
  by (simp add: updateBank_def sample_defs bankFormSchema_def phone_regex_def isDigit_def
      atmPin_schema_def getUsersCollection_def findOne_def case_prod_unfold Let_def)

lemma sample_decrypt_bankName: "decrypt sample_env ''r0KknaB'' = Some ''Bank''"
  by (simp add: sample_env_def encryption_decrypt_def toy_cipher_def)

lemma sample_decrypt_accountNumber: "decrypt sample_env ''r2K54321'' = Some ''12345''"
  by (simp add: sample_env_def encryption_decrypt_def toy_cipher_def)

lemma sample_decrypt_plain: "decrypt sample_env ''hunter22'' = None"
  by (simp add: sample_env_def encryption_decrypt_def toy_cipher_def)

lemma sample_decrypt_master: "decrypt sample_env ''r9K321drowssap'' = Some ''password123''"
  by (simp add: sample_env_def encryption_decrypt_def toy_cipher_def)

lemma sample_store_ok: "store_ciphertexts_ok sample_env sample_world"
  by (simp add: store_ciphertexts_ok_def bank_ciphertexts_ok_def ciphertext_ok_def sample_defs)

lemma regExp_alice:
  "regExp_i sample_env (username_pattern ''Alice'') = Some (rx_match
     [(RxChar CHR ''A'', RxOne), (RxChar CHR ''l'', RxOne), (RxChar CHR ''i'', RxOne),
      (RxChar CHR ''c'', RxOne), (RxChar CHR ''e'', RxOne)])"
  by (simp add: sample_env_def username_pattern_def regExp_i_fragment_def rx_atom_of_def rx_quant_of_def)

lemma sample_findOne_alice:
  "findOne (\<lambda>u. rx_match
     [(RxChar CHR ''A'', RxOne), (RxChar CHR ''l'', RxOne), (RxChar CHR ''i'', RxOne),
      (RxChar CHR ''c'', RxOne), (RxChar CHR ''e'', RxOne)] (username u)) (users legacy_world) = Some sample_user"
  by (simp add: findOne_def legacy_world_def sample_user_def toUpperCase_char_def)

lemma sample_findOne_u2:
  "findOne (\<lambda>u. user_id u = ''u2'') (users legacy_world) = Some legacy_user"
  by (simp add: findOne_def legacy_world_def sample_user_def legacy_user_def)

lemma regExp_carol:
  "regExp_i sample_env (username_pattern ''carol'') = Some (rx_match
     [(RxChar CHR ''c'', RxOne), (RxChar CHR ''a'', RxOne), (RxChar CHR ''r'', RxOne),
      (RxChar CHR ''o'', RxOne), (RxChar CHR ''l'', RxOne)])"
  by (simp add: sample_env_def username_pattern_def regExp_i_fragment_def rx_atom_of_def rx_quant_of_def)

lemma sample_findOne_carol:
  "findOne (\<lambda>u. rx_match
     [(RxChar CHR ''c'', RxOne), (RxChar CHR ''a'', RxOne), (RxChar CHR ''r'', RxOne),
      (RxChar CHR ''o'', RxOne), (RxChar CHR ''l'', RxOne)] (username u)) (users legacy_world) = None"
  by (simp add: findOne_def legacy_world_def sample_user_def legacy_user_def toUpperCase_char_def)

lemma createUser_first:
  "snd (createUser sample_env \<lparr>new_username = ''a+b'', new_password = ''password1''\<rparr> empty_world) =
     \<lparr>db_available = True,
      users = [\<lparr>user_id = ''id-0'', username = ''a+b'', banks = [], masterPassword = ''r1K1drowssap''\<rparr>],
      rng = 2\<rparr>"
  by (simp add: createUser_def createUserSchema_def getUsersCollection_def empty_world_def
      sample_env_def username_pattern_def regExp_i_fragment_def rx_atom_of_def rx_quant_of_def
      findOne_def insertOne_def encrypt_st_def encryption_encrypt_def toy_cipher_def Let_def)

lemma createUser_plain_case_variant_refused:
  "fst (createUser sample_env \<lparr>new_username = ''Alice'', new_password = ''password2''\<rparr> sample_world) =
     Inr (Error ''Username already taken.'')"
  by (simp add: createUser_def createUserSchema_def getUsersCollection_def
      sample_env_def username_pattern_def regExp_i_fragment_def rx_atom_of_def rx_quant_of_def
      findOne_def sample_world_def sample_user_def toUpperCase_char_def)

text \<open>The scenario of the spec: an update with the empty PIN keeps the stored PIN, an update
  with a new PIN replaces it.\<close>

lemma scenario_world_eq:
  "scenario_world =
   \<lparr>db_available = True,
      users =
       [\<lparr>user_id = ''id-0'', username = ''alice'',
           banks =
             [\<lparr>bankName = ''r3KknaB'', phoneForOtp = ''r4K2119+'',
                 accountNumber = ''r5K12345'', netBankingUsername = ''r6Kten'',
                 netBankingPassword = Some ''r7Kwpn'',
                 mobileBankingUsername = ''r8Kbom'',
                 mobileBankingPassword = None, atmPin = Some ''r9K4321'',
                 customFields = None, bank_id = ''id-2''\<rparr>],
           masterPassword = ''r1K321drowssap''\<rparr>],
      rng = 10\<rparr>"
  by (simp add: scenario_world_def scenario_form_def createUser_def createUserSchema_def
      getUsersCollection_def empty_world_def sample_env_def username_pattern_def
      regExp_i_fragment_def rx_atom_of_def rx_quant_of_def findOne_def insertOne_def
      encrypt_st_def encryption_encrypt_def toy_cipher_def Let_def addBank_def newBank_def
      bankFormSchema_def phone_regex_def isDigit_def atmPin_schema_def encrypt_if_truthy_def)

lemmas run_defs = updateBank_def updatedBank_def decryptBank_def decryptedBank_def
  decrypt_or_NA_def encrypt_if_provided_def trim_def isWhiteSpace_def
  bankFormSchema_def phone_regex_def isDigit_def atmPin_schema_def encrypt_st_def
  getUsersCollection_def findOne_def sample_env_def encryption_encrypt_def
  encryption_decrypt_def toy_cipher_def scenario_form_def Let_def

lemma scenario_empty_pin_keeps:
  "decryptBank sample_env ''id-0'' ''id-2''
     (snd (updateBank sample_env ''id-0'' ''id-2'' (scenario_form []) scenario_world)) =
   Inr (Success ''Bank decrypted.''
       \<lparr>bankName = ''Bank'', phoneForOtp = ''+9112'',
          accountNumber = ''54321'', netBankingUsername = ''net'',
          netBankingPassword = Some ''npw'',
          mobileBankingUsername = ''mob'',
          mobileBankingPassword = Some ''N/A'', atmPin = Some ''1234'',
          customFields = None, bank_id = ''id-2''\<rparr>)"
  unfolding scenario_world_eq by (simp add: run_defs)

lemma scenario_new_pin_replaces:
  "decryptBank sample_env ''id-0'' ''id-2''
     (snd (updateBank sample_env ''id-0'' ''id-2'' (scenario_form ''9876'') scenario_world)) =
   Inr (Success ''Bank decrypted.''
       \<lparr>bankName = ''Bank'', phoneForOtp = ''+9112'',
          accountNumber = ''54321'', netBankingUsername = ''net'',
          netBankingPassword = Some ''npw'',
          mobileBankingUsername = ''mob'',
          mobileBankingPassword = Some ''N/A'', atmPin = Some ''9876'',
          customFields = None, bank_id = ''id-2''\<rparr>)"
  unfolding scenario_world_eq by (simp add: run_defs)

subsection \<open>Which actions return a result\<close>

lemma decrypt_or_NA_ok:
  "(case v of None \<Rightarrow> True | Some c \<Rightarrow> ciphertext_ok env c) \<Longrightarrow> \<exists>p. decrypt_or_NA env v = Some p"
  by (auto simp: decrypt_or_NA_def ciphertext_ok_def split: option.splits)

lemma decrypt_field_ok:
  "ciphertext_ok env (label f) \<Longrightarrow> ciphertext_ok env (field_value f) \<Longrightarrow> decrypt_field env f \<noteq> None"
  by (auto simp: decrypt_field_def decrypt_or_NA_def ciphertext_ok_def)

lemma decryptedBank_ok:
  assumes "bank_ciphertexts_ok env b"
  shows "\<exists>d. decryptedBank env b = Some d"
proof -
  from assms obtain c1 c2 c3 c4 c5 where c:
    "decrypt env (bankName b) = Some c1" "decrypt env (phoneForOtp b) = Some c2"
    "decrypt env (accountNumber b) = Some c3" "decrypt env (netBankingUsername b) = Some c4"
    "decrypt env (mobileBankingUsername b) = Some c5"
    by (auto simp: bank_ciphertexts_ok_def ciphertext_ok_def)
  from assms obtain p1 p2 p3 where p:
    "decrypt_or_NA env (netBankingPassword b) = Some p1"
    "decrypt_or_NA env (mobileBankingPassword b) = Some p2"
    "decrypt_or_NA env (atmPin b) = Some p3"
    unfolding bank_ciphertexts_ok_def by (meson decrypt_or_NA_ok)
  have "\<exists>cf. (case customFields b of
               None \<Rightarrow> Some None
             | Some fs \<Rightarrow> map_option Some (those (map (decrypt_field env) fs))) = Some cf"
  proof (cases "customFields b")
    case None
    then show ?thesis by simp
  next
    case (Some fs)
    have "decrypt_field env f \<noteq> None" if "f \<in> set fs" for f
      using that assms Some decrypt_field_ok[of env f]
      by (simp add: bank_ciphertexts_ok_def list_all_iff)
    from those_map_Some[of fs "decrypt_field env", OF this] Some show ?thesis by simp
  qed
  then obtain cf where "(case customFields b of
               None \<Rightarrow> Some None
             | Some fs \<Rightarrow> map_option Some (those (map (decrypt_field env) fs))) = Some cf" ..
  with c p show ?thesis
    by (simp add: decryptedBank_def)
qed

lemma decrypt_item_ok:
  "bank_ciphertexts_ok env b \<Longrightarrow> decrypt_item env b \<noteq> None"
  by (auto simp: decrypt_item_def bank_ciphertexts_ok_def ciphertext_ok_def)

lemma getBanksForUser_returns:
  assumes "db_available w" "store_ciphertexts_ok env w"
  shows "\<exists>r. getBanksForUser env userId w = Inr r"
proof (cases "findOne (\<lambda>u. user_id u = userId) (users w)")
  case None
  with assms show ?thesis by (simp add: getBanksForUser_def getUsersCollection_def)
next
  case (Some usr)
  have "decrypt_item env b \<noteq> None" if "b \<in> set (banks usr)" for b
  proof (rule decrypt_item_ok)
    show "bank_ciphertexts_ok env b"
      using that findOne_SomeD[OF Some] assms(2)
      by (auto simp: store_ciphertexts_ok_def list_all_iff)
  qed
  from those_map_Some[of "banks usr" "decrypt_item env", OF this] Some assms(1) show ?thesis
    by (simp add: getBanksForUser_def getUsersCollection_def)
qed

lemma decryptBank_returns:
  assumes "db_available w" "store_ciphertexts_ok env w"
  shows "\<exists>r. decryptBank env userId bankId w = Inr r"
proof (cases "findOne (\<lambda>u. user_id u = userId) (users w)")
  case None
  with assms show ?thesis by (simp add: decryptBank_def getUsersCollection_def)
next
  case (Some usr)
  show ?thesis
  proof (cases "find (\<lambda>b. bank_id b = bankId) (banks usr)")
    case None
    with Some assms show ?thesis by (simp add: decryptBank_def getUsersCollection_def)
  next
    case (Some b)
    then have "b \<in> set (banks usr)"
      by (auto simp: find_Some_iff)
    with findOne_SomeD[OF \<open>findOne (\<lambda>u. user_id u = userId) (users w) = Some usr\<close>] assms(2)
    have "bank_ciphertexts_ok env b"
      by (auto simp: store_ciphertexts_ok_def list_all_iff)
    from decryptedBank_ok[OF this] obtain d where "decryptedBank env b = Some d" ..
    with Some \<open>findOne (\<lambda>u. user_id u = userId) (users w) = Some usr\<close> assms(1) show ?thesis
      by (simp add: decryptBank_def getUsersCollection_def)
  qed
qed

lemma addBank_returns: "db_available w \<Longrightarrow> \<exists>r. fst (addBank env userId vals w) = Inr r"
  by (simp add: addBank_def getUsersCollection_def case_prod_unfold Let_def split: option.splits)

lemma updateBank_returns: "db_available w \<Longrightarrow> \<exists>r. fst (updateBank env userId bankId vals w) = Inr r"
  by (simp add: updateBank_def getUsersCollection_def case_prod_unfold Let_def split: option.splits)

lemma deleteBank_returns: "db_available w \<Longrightarrow> \<exists>r. fst (deleteBank userId bankId w) = Inr r"
  by (simp add: deleteBank_def getUsersCollection_def Let_def split: option.splits)

lemma createUser_returns:
  "db_available w \<Longrightarrow> regExp_i env (username_pattern (new_username cvals)) \<noteq> None \<Longrightarrow>
   \<exists>r. fst (createUser env cvals w) = Inr r"
  by (auto simp: createUser_def getUsersCollection_def case_prod_unfold Let_def split: option.splits)

lemma verifyMasterPassword_returns:
  "db_available w \<Longrightarrow> regExp_i env (username_pattern uname) \<noteq> None \<Longrightarrow>
   \<exists>r. verifyMasterPassword env uname password w = Inr r"
  by (auto simp: verifyMasterPassword_def getUsersCollection_def split: option.splits)

lemma changeMasterPassword_returns:
  "db_available w \<Longrightarrow> \<exists>r. fst (changeMasterPassword env userId pvals w) = Inr r"
  by (simp add: changeMasterPassword_def getUsersCollection_def case_prod_unfold Let_def split: option.splits)

text \<open>
  C1. With the store reachable, \<^verbatim>\<open>addBank\<close>, \<^verbatim>\<open>updateBank\<close>,
  \<^verbatim>\<open>deleteBank\<close> and \<^verbatim>\<open>changeMasterPassword\<close> return a result object for every
  input and every stored document; \<^verbatim>\<open>createUser\<close> and \<^verbatim>\<open>verifyMasterPassword\<close>
  return one whenever the expression built from the username is well formed (a
  DecryptionError on the stored master password is caught); \<^verbatim>\<open>getBanksForUser\<close> and
  \<^verbatim>\<open>decryptBank\<close> return one when every stored ciphertext of the bank records
  decrypts. The two reading actions have no handler: on a record that does not decrypt the
  DecryptionError reaches the caller, as the run after the theorem shows.
\<close>

theorem operations_return_results:
  assumes db: "db_available w"
  shows "(store_ciphertexts_ok env w \<longrightarrow> (\<exists>r. getBanksForUser env userId w = Inr r)) \<and>
         (\<exists>r. fst (addBank env userId vals w) = Inr r) \<and>
         (\<exists>r. fst (updateBank env userId bankId vals w) = Inr r) \<and>
         (\<exists>r. fst (deleteBank userId bankId w) = Inr r) \<and>
         (store_ciphertexts_ok env w \<longrightarrow> (\<exists>r. decryptBank env userId bankId w = Inr r)) \<and>
         (regExp_i env (username_pattern (new_username cvals)) \<noteq> None \<longrightarrow>
            (\<exists>r. fst (createUser env cvals w) = Inr r)) \<and>
         (regExp_i env (username_pattern uname) \<noteq> None \<longrightarrow>
            (\<exists>r. verifyMasterPassword env uname password w = Inr r)) \<and>
         (\<exists>r. fst (changeMasterPassword env userId pvals w) = Inr r)"
  using getBanksForUser_returns[OF db, of env userId] addBank_returns[OF db, of env userId vals]
    updateBank_returns[OF db, of env userId bankId vals] deleteBank_returns[OF db, of userId bankId]
    decryptBank_returns[OF db, of env userId bankId] createUser_returns[OF db, of env cvals]
    verifyMasterPassword_returns[OF db, of env uname password]
    changeMasterPassword_returns[OF db, of env userId pvals]
  by blast

theorem getBanksForUser_raises_counterexample:
  "getBanksForUser sample_env ''u3'' unreadable_world = Inl DecryptionError"
  by (simp add: getBanksForUser_def getUsersCollection_def findOne_def unreadable_world_def
      decrypt_item_def sample_bank_def sample_env_def encryption_decrypt_def toy_cipher_def)

theorem operations_return_results_witness:
  "db_available sample_world \<and> store_ciphertexts_ok sample_env sample_world \<and>
   regExp_i sample_env (username_pattern ''Alice'') \<noteq> None \<and>
   (\<exists>r. getBanksForUser sample_env ''u1'' sample_world = Inr r) \<and>
   (\<exists>r. fst (addBank sample_env ''u1'' sample_form sample_world) = Inr r) \<and>
   (\<exists>r. fst (updateBank sample_env ''u1'' ''b1'' sample_form sample_world) = Inr r) \<and>
   (\<exists>r. fst (deleteBank ''u1'' ''b1'' sample_world) = Inr r) \<and>
   (\<exists>r. decryptBank sample_env ''u1'' ''b1'' sample_world = Inr r) \<and>
   (\<exists>r. fst (createUser sample_env \<lparr>new_username = ''Alice'', new_password = ''password123''\<rparr>
                sample_world) = Inr r) \<and>
   (\<exists>r. verifyMasterPassword sample_env ''Alice'' ''password123'' sample_world = Inr r) \<and>
   (\<exists>r. fst (changeMasterPassword sample_env ''u1'' sample_change sample_world) = Inr r)"
proof -
  have rx: "regExp_i sample_env (username_pattern ''Alice'') \<noteq> None"
    by (simp add: regExp_alice)
  have rx': "regExp_i sample_env (username_pattern
               (new_username \<lparr>new_username = ''Alice'', new_password = ''password123''\<rparr>)) \<noteq> None"
    by (simp add: regExp_alice)
  show ?thesis
    using operations_return_results[OF sample_db, where env = sample_env and userId = "''u1''"
        and vals = sample_form and bankId = "''b1''"
        and cvals = "\<lparr>new_username = ''Alice'', new_password = ''password123''\<rparr>"
        and uname = "''Alice''" and password = "''password123''" and pvals = sample_change]
      sample_db sample_store_ok rx rx'
    by blast
qed

subsection \<open>Updating a bank record\<close>

text \<open>
  C2. After a successful \<^verbatim>\<open>updateBank\<close> on an existing record, the stored record has
  bankName, phoneForOtp, accountNumber, netBankingUsername and mobileBankingUsername
  overwritten by fresh encryptions of the incoming values; each of netBankingPassword,
  mobileBankingPassword and atmPin holds a fresh encryption of the incoming value if that
  value is non-empty after trimming, and otherwise the ciphertext stored before.
\<close>

theorem updateBank_fields:
  assumes ok: "fst (updateBank env userId bankId vals w) = Inr (Success m ())"
  shows "\<exists>i. findIndex (\<lambda>b. bank_id b = bankId) (banksOf w userId) = Some i \<and>
     (let w' = snd (updateBank env userId bankId vals w);
          old = banksOf w userId ! i;
          new = banksOf w' userId ! i
      in fresh_encryption env w w' (bankName vals) (bankName new) \<and>
         fresh_encryption env w w' (phoneForOtp vals) (phoneForOtp new) \<and>
         fresh_encryption env w w' (accountNumber vals) (accountNumber new) \<and>
         fresh_encryption env w w' (netBankingUsername vals) (netBankingUsername new) \<and>
         fresh_encryption env w w' (mobileBankingUsername vals) (mobileBankingUsername new) \<and>
         optional_secret_rule env w w' (netBankingPassword vals)
           (netBankingPassword old) (netBankingPassword new) \<and>
         optional_secret_rule env w w' (mobileBankingPassword vals)
           (mobileBankingPassword old) (mobileBankingPassword new) \<and>
         optional_secret_rule env w w' (atmPin vals) (atmPin old) (atmPin new))"
proof -
  define w' where "w' = snd (updateBank env userId bankId vals w)"
  from updateBank_success[OF ok] obtain usr i where
    usr: "findOne (\<lambda>u. user_id u = userId) (users w) = Some usr" and
    i: "findIndex (\<lambda>b. bank_id b = bankId) (banks usr) = Some i" and
    new: "banksOf w' userId =
             (banks usr)[i := fst (updatedBank env (banks usr ! i) vals (rng w))]" and
    rng: "rng w' = snd (updatedBank env (banks usr ! i) vals (rng w))"
    unfolding w'_def by blast
  have old: "banksOf w userId = banks usr"
    by (simp add: banksOf_def usr)
  have len: "i < length (banks usr)"
    using findIndex_Some[OF i] by simp
  define b where "b = banks usr ! i"
  define b' where "b' = banksOf w' userId ! i"
  have b': "b' = fst (updatedBank env b vals (rng w))"
    by (simp add: b'_def b_def new len)
  have rng': "rng w' = rng w + 5 + draws (netBankingPassword vals) + draws (mobileBankingPassword vals)
                + draws (atmPin vals) + (case customFields vals of None \<Rightarrow> 0 | Some fs \<Rightarrow> 2 * length fs)"
    by (simp add: rng updatedBank_eq Let_def)
  have f1: "fresh_encryption env w w' (bankName vals) (bankName b')"
    by (rule fresh_encryptionI[of _ "rng w"]) (simp_all add: b' updatedBank_eq Let_def rng')
  have f2: "fresh_encryption env w w' (phoneForOtp vals) (phoneForOtp b')"
    by (rule fresh_encryptionI[of _ "rng w + 1"]) (simp_all add: b' updatedBank_eq Let_def rng')
  have f3: "fresh_encryption env w w' (accountNumber vals) (accountNumber b')"
    by (rule fresh_encryptionI[of _ "rng w + 2"]) (simp_all add: b' updatedBank_eq Let_def rng')
  have f4: "fresh_encryption env w w' (netBankingUsername vals) (netBankingUsername b')"
    by (rule fresh_encryptionI[of _ "rng w + 3"]) (simp_all add: b' updatedBank_eq Let_def rng')
  have f5: "fresh_encryption env w w' (mobileBankingUsername vals) (mobileBankingUsername b')"
    by (rule fresh_encryptionI[of _ "rng w + 4"]) (simp_all add: b' updatedBank_eq Let_def rng')
  have o1: "optional_secret_rule env w w' (netBankingPassword vals)
              (netBankingPassword b) (netBankingPassword b')"
    by (rule optional_secret_ruleI[of _ _ _ "rng w + 5"])
       (simp_all add: b' updatedBank_eq Let_def rng' draws_def)
  have o2: "optional_secret_rule env w w' (mobileBankingPassword vals)
              (mobileBankingPassword b) (mobileBankingPassword b')"
    by (rule optional_secret_ruleI[of _ _ _ "rng w + 5 + draws (netBankingPassword vals)"])
       (simp_all add: b' updatedBank_eq Let_def rng' draws_def)
  have o3: "optional_secret_rule env w w' (atmPin vals) (atmPin b) (atmPin b')"
    by (rule optional_secret_ruleI[of _ _ _
          "rng w + 5 + draws (netBankingPassword vals) + draws (mobileBankingPassword vals)"])
       (simp_all add: b' updatedBank_eq Let_def rng' draws_def)
  show ?thesis
    unfolding Let_def w'_def[symmetric] old
    using i f1 f2 f3 f4 f5 o1 o2 o3 unfolding b_def b'_def by blast
qed

theorem updateBank_fields_witness:
  "fst (updateBank sample_env ''u1'' ''b1'' sample_form sample_world) =
     Inr (Success ''Bank updated successfully.'' ()) \<and>
   (\<exists>i. findIndex (\<lambda>b. bank_id b = ''b1'') (banksOf sample_world ''u1'') = Some i \<and>
     (let w' = snd (updateBank sample_env ''u1'' ''b1'' sample_form sample_world);
          old = banksOf sample_world ''u1'' ! i;
          new = banksOf w' ''u1'' ! i
      in fresh_encryption sample_env sample_world w' (bankName sample_form) (bankName new) \<and>
         fresh_encryption sample_env sample_world w' (phoneForOtp sample_form) (phoneForOtp new) \<and>
         fresh_encryption sample_env sample_world w' (accountNumber sample_form) (accountNumber new) \<and>
         fresh_encryption sample_env sample_world w' (netBankingUsername sample_form) (netBankingUsername new) \<and>
         fresh_encryption sample_env sample_world w' (mobileBankingUsername sample_form) (mobileBankingUsername new) \<and>
         optional_secret_rule sample_env sample_world w' (netBankingPassword sample_form)
           (netBankingPassword old) (netBankingPassword new) \<and>
         optional_secret_rule sample_env sample_world w' (mobileBankingPassword sample_form)
           (mobileBankingPassword old) (mobileBankingPassword new) \<and>
         optional_secret_rule sample_env sample_world w' (atmPin sample_form) (atmPin old) (atmPin new)))"
  using sample_update_ok updateBank_fields[OF sample_update_ok] by (rule conjI)

text \<open>
  C10. A successful \<^verbatim>\<open>updateBank\<close> keeps the structure of the user's bank list: the
  list has the same length and the same ids in the same order, the record found by the id
  stays at its index with its id, every other record is as before, and when the input has
  no customFields the stored custom fields of the record are as before.
\<close>

theorem updateBank_structure:
  assumes ok: "fst (updateBank env userId bankId vals w) = Inr (Success m ())"
  shows "let old = banksOf w userId;
             new = banksOf (snd (updateBank env userId bankId vals w)) userId
         in length new = length old \<and>
            map bank_id new = map bank_id old \<and>
            (\<exists>i<length old.
               findIndex (\<lambda>b. bank_id b = bankId) old = Some i \<and>
               bank_id (old ! i) = bankId \<and>
               bank_id (new ! i) = bankId \<and>
               (\<forall>j<length old. j \<noteq> i \<longrightarrow> new ! j = old ! j) \<and>
               (customFields vals = None \<longrightarrow> customFields (new ! i) = customFields (old ! i)))"
proof -
  from updateBank_success[OF ok] obtain usr i where
    usr: "findOne (\<lambda>u. user_id u = userId) (users w) = Some usr" and
    i: "findIndex (\<lambda>b. bank_id b = bankId) (banks usr) = Some i" and
    new: "banksOf (snd (updateBank env userId bankId vals w)) userId =
             (banks usr)[i := fst (updatedBank env (banks usr ! i) vals (rng w))]"
    by blast
  have old: "banksOf w userId = banks usr"
    by (simp add: banksOf_def usr)
  from findIndex_Some[OF i] have len: "i < length (banks usr)" and idi: "bank_id (banks usr ! i) = bankId"
    by simp_all
  have id': "bank_id (fst (updatedBank env (banks usr ! i) vals (rng w))) = bankId"
    by (simp add: updatedBank_eq Let_def idi)
  have ids: "map bank_id ((banks usr)[i := fst (updatedBank env (banks usr ! i) vals (rng w))]) =
             map bank_id (banks usr)"
    using len by (simp add: list_eq_iff_nth_eq nth_list_update id' idi)
  have cf: "customFields vals = None \<Longrightarrow>
        customFields (fst (updatedBank env (banks usr ! i) vals (rng w))) = customFields (banks usr ! i)"
    by (simp add: updatedBank_eq Let_def)
  show ?thesis
    unfolding Let_def old new
    using len i idi id' ids cf by (auto intro!: exI[of _ i])
qed

theorem updateBank_structure_witness:
  "fst (updateBank sample_env ''u1'' ''b1'' sample_form sample_world) =
     Inr (Success ''Bank updated successfully.'' ()) \<and>
   (let old = banksOf sample_world ''u1'';
        new = banksOf (snd (updateBank sample_env ''u1'' ''b1'' sample_form sample_world)) ''u1''
    in length new = length old \<and>
       map bank_id new = map bank_id old \<and>
       (\<exists>i<length old.
          findIndex (\<lambda>b. bank_id b = ''b1'') old = Some i \<and>
          bank_id (old ! i) = ''b1'' \<and>
          bank_id (new ! i) = ''b1'' \<and>
          (\<forall>j<length old. j \<noteq> i \<longrightarrow> new ! j = old ! j) \<and>
          (customFields sample_form = None \<longrightarrow> customFields (new ! i) = customFields (old ! i))))"
  using sample_update_ok updateBank_structure[OF sample_update_ok] by (rule conjI)

subsection \<open>The master password\<close>

text \<open>
  C3. Once a user is found and the inputs have passed the checks before the comparison,
  both \<^verbatim>\<open>verifyMasterPassword\<close> and \<^verbatim>\<open>changeMasterPassword\<close> accept the supplied
  password exactly when the comparison of the spec matches: the decrypted stored value
  equals it, or, when decryption throws, the stored value itself equals it. (An empty
  stored value is not decrypted by the actions; the cipher module refuses it anyway.)
\<close>

theorem master_password_comparison:
  assumes stored: "masterPassword usr \<noteq> [] \<or> decrypt env [] = None"
  shows "(uname \<noteq> [] \<and> password \<noteq> [] \<and> db_available w \<and>
          regExp_i env (username_pattern uname) = Some test \<and>
          findOne (\<lambda>u. test (username u)) (users w) = Some usr \<longrightarrow>
            verifyMasterPassword env uname password w =
              (if password_matches env (masterPassword usr) password
               then Inr (Success ''Login successful.'' (userToReturn usr))
               else Inr (Error ''Invalid username or password.''))) \<and>
         (changePasswordSchema vals = None \<and> db_available w \<and>
          findOne (\<lambda>u. user_id u = userId) (users w) = Some usr \<longrightarrow>
            fst (changeMasterPassword env userId vals w) =
              (if password_matches env (masterPassword usr) (currentPassword vals)
               then Inr (Success ''Master password updated successfully.'' ())
               else Inr (Error ''Incorrect current password.'')))"
proof (rule conjI; rule impI)
  assume a: "uname \<noteq> [] \<and> password \<noteq> [] \<and> db_available w \<and>
          regExp_i env (username_pattern uname) = Some test \<and>
          findOne (\<lambda>u. test (username u)) (users w) = Some usr"
  show "verifyMasterPassword env uname password w =
              (if password_matches env (masterPassword usr) password
               then Inr (Success ''Login successful.'' (userToReturn usr))
               else Inr (Error ''Invalid username or password.''))"
    using a stored
    by (auto simp: verifyMasterPassword_def getUsersCollection_def password_matches_def
        split: option.splits)
next
  assume a: "changePasswordSchema vals = None \<and> db_available w \<and>
          findOne (\<lambda>u. user_id u = userId) (users w) = Some usr"
  then have cur: "currentPassword vals \<noteq> []"
    by (auto simp: changePasswordSchema_def split: if_splits)
  have "isPasswordValid env usr (currentPassword vals) =
          password_matches env (masterPassword usr) (currentPassword vals)"
    using stored cur by (auto simp: isPasswordValid_def password_matches_def split: option.splits)
  then show "fst (changeMasterPassword env userId vals w) =
              (if password_matches env (masterPassword usr) (currentPassword vals)
               then Inr (Success ''Master password updated successfully.'' ())
               else Inr (Error ''Incorrect current password.''))"
    using a by (simp add: changeMasterPassword_def getUsersCollection_def case_prod_unfold Let_def)
qed

theorem master_password_comparison_witness:
  "masterPassword sample_user \<noteq> [] \<and>
   regExp_i sample_env (username_pattern ''Alice'') \<noteq> None \<and>
   verifyMasterPassword sample_env ''Alice'' ''password123'' legacy_world =
     Inr (Success ''Login successful.'' (userToReturn sample_user)) \<and>
   verifyMasterPassword sample_env ''Alice'' ''r9K321drowssap'' legacy_world =
     Inr (Error ''Invalid username or password.'') \<and>
   changePasswordSchema sample_change = None \<and>
   fst (changeMasterPassword sample_env ''u2'' sample_change legacy_world) =
     Inr (Success ''Master password updated successfully.'' ())"
proof -
  have s1: "masterPassword sample_user \<noteq> [] \<or> decrypt sample_env [] = None"
    by (simp add: sample_user_def)
  have s2: "masterPassword legacy_user \<noteq> [] \<or> decrypt sample_env [] = None"
    by (simp add: legacy_user_def)
  have db: "db_available legacy_world"
    by (simp add: legacy_world_def)
  have sch: "changePasswordSchema sample_change = None"
    by (simp add: changePasswordSchema_def sample_change_def)
  have m1: "password_matches sample_env (masterPassword sample_user) ''password123''"
    by (simp add: password_matches_def sample_user_def sample_decrypt_master)
  have m2: "\<not> password_matches sample_env (masterPassword sample_user) ''r9K321drowssap''"
    by (simp add: password_matches_def sample_user_def sample_decrypt_master)
  have m3: "password_matches sample_env (masterPassword legacy_user) (currentPassword sample_change)"
    by (simp add: password_matches_def legacy_user_def sample_change_def sample_decrypt_plain)
  let ?t = "rx_match
     [(RxChar CHR ''A'', RxOne), (RxChar CHR ''l'', RxOne), (RxChar CHR ''i'', RxOne),
      (RxChar CHR ''c'', RxOne), (RxChar CHR ''e'', RxOne)]"
  note v1 = master_password_comparison[OF s1, where uname = "''Alice''" and password = "''password123''"
      and w = legacy_world and test = ?t and vals = sample_change and userId = "''zz''"]
  note v2 = master_password_comparison[OF s1, where uname = "''Alice''" and password = "''r9K321drowssap''"
      and w = legacy_world and test = ?t and vals = sample_change and userId = "''zz''"]
  note c1 = master_password_comparison[OF s2, where uname = "''Alice''" and password = "''x''"
      and w = legacy_world and test = ?t and vals = sample_change and userId = "''u2''"]
  show ?thesis
    using v1 v2 c1 regExp_alice sample_findOne_alice sample_findOne_u2 db sch m1 m2 m3
    by (simp add: sample_user_def)
qed

text \<open>
  C8. For a non-empty username and a non-empty password, with the store reachable and the
  expression built from the username well formed, \<^verbatim>\<open>verifyMasterPassword\<close> returns the
  one error \<^verbatim>\<open>Invalid username or password.\<close> both when no stored username matches and
  when one matches and the password is wrong. With an empty username or password it returns
  \<^verbatim>\<open>Username and password are required.\<close> whatever is stored, so the generic error
  is not the answer to every wrong password: the run after the theorem is an existing user
  with the empty password.
\<close>

theorem verifyMasterPassword_generic_error:
  "(uname = [] \<or> password = [] \<longrightarrow>
      verifyMasterPassword env uname password w = Inr (Error ''Username and password are required.'')) \<and>
   (uname \<noteq> [] \<and> password \<noteq> [] \<and> db_available w \<and>
    regExp_i env (username_pattern uname) = Some test \<longrightarrow>
      (findOne (\<lambda>u. test (username u)) (users w) = None \<longrightarrow>
         verifyMasterPassword env uname password w = Inr (Error ''Invalid username or password.'')) \<and>
      (\<forall>usr. findOne (\<lambda>u. test (username u)) (users w) = Some usr \<longrightarrow>
         \<not> password_matches env (masterPassword usr) password \<longrightarrow>
         verifyMasterPassword env uname password w = Inr (Error ''Invalid username or password.'')))"
  by (auto simp: verifyMasterPassword_def getUsersCollection_def password_matches_def
      split: option.splits)

theorem verifyMasterPassword_empty_password_counterexample:
  "verifyMasterPassword sample_env ''alice'' [] sample_world =
     Inr (Error ''Username and password are required.'') \<and>
   verifyMasterPassword sample_env ''alice'' [] sample_world \<noteq>
     Inr (Error ''Invalid username or password.'')"
  by (simp add: verifyMasterPassword_def)

theorem verifyMasterPassword_generic_error_witness:
  "verifyMasterPassword sample_env [] ''wrong'' legacy_world =
     Inr (Error ''Username and password are required.'') \<and>
   db_available legacy_world \<and>
   regExp_i sample_env (username_pattern ''carol'') \<noteq> None \<and>
   regExp_i sample_env (username_pattern ''Alice'') \<noteq> None \<and>
   verifyMasterPassword sample_env ''carol'' ''wrong'' legacy_world =
     Inr (Error ''Invalid username or password.'') \<and>
   verifyMasterPassword sample_env ''Alice'' ''wrong'' legacy_world =
     Inr (Error ''Invalid username or password.'')"
proof -
  let ?a = "rx_match
     [(RxChar CHR ''A'', RxOne), (RxChar CHR ''l'', RxOne), (RxChar CHR ''i'', RxOne),
      (RxChar CHR ''c'', RxOne), (RxChar CHR ''e'', RxOne)]"
  let ?c = "rx_match
     [(RxChar CHR ''c'', RxOne), (RxChar CHR ''a'', RxOne), (RxChar CHR ''r'', RxOne),
      (RxChar CHR ''o'', RxOne), (RxChar CHR ''l'', RxOne)]"
  have db: "db_available legacy_world"
    by (simp add: legacy_world_def)
  have wrong: "\<not> password_matches sample_env (masterPassword sample_user) ''wrong''"
    by (simp add: password_matches_def sample_user_def sample_decrypt_master)
  note e = verifyMasterPassword_generic_error[where uname = "[]" and password = "''wrong''"
      and w = legacy_world and env = sample_env and test = ?c]
  note c = verifyMasterPassword_generic_error[where uname = "''carol''" and password = "''wrong''"
      and w = legacy_world and env = sample_env and test = ?c]
  note a = verifyMasterPassword_generic_error[where uname = "''Alice''" and password = "''wrong''"
      and w = legacy_world and env = sample_env and test = ?a]
  show ?thesis
    using e c a db wrong regExp_carol regExp_alice sample_findOne_carol sample_findOne_alice
    by simp
qed

subsection \<open>Deleting and listing bank records\<close>

text \<open>
  C6. For an existing user, \<^verbatim>\<open>deleteBank\<close> with an id that no record of the user has
  returns the error \<^verbatim>\<open>Bank not found.\<close> and leaves the world as it is; with an id that
  matches, it succeeds and the stored list is the old one without the records of that id,
  the others in their order.
\<close>

theorem deleteBank_by_id:
  assumes db: "db_available w"
    and usr: "findOne (\<lambda>u. user_id u = userId) (users w) = Some usr"
  shows "(bankId \<notin> bank_id ` set (banks usr) \<longrightarrow>
            deleteBank userId bankId w = (Inr (Error ''Bank not found.''), w)) \<and>
         (bankId \<in> bank_id ` set (banks usr) \<longrightarrow>
            fst (deleteBank userId bankId w) = Inr (Success ''Bank deleted successfully.'' ()) \<and>
            banksOf (snd (deleteBank userId bankId w)) userId =
              filter (\<lambda>b. bank_id b \<noteq> bankId) (banks usr))"
proof (rule conjI; rule impI)
  assume "bankId \<notin> bank_id ` set (banks usr)"
  then have "filter (\<lambda>b. bank_id b \<noteq> bankId) (banks usr) = banks usr"
    by (auto simp: filter_id_conv)
  then show "deleteBank userId bankId w = (Inr (Error ''Bank not found.''), w)"
    by (simp add: deleteBank_def getUsersCollection_def db usr Let_def)
next
  assume "bankId \<in> bank_id ` set (banks usr)"
  then have "length (filter (\<lambda>b. bank_id b \<noteq> bankId) (banks usr)) < length (banks usr)"
    by (auto intro!: length_filter_less)
  then have ne: "length (filter (\<lambda>b. bank_id b \<noteq> bankId) (banks usr)) \<noteq> length (banks usr)"
    by simp
  show "fst (deleteBank userId bankId w) = Inr (Success ''Bank deleted successfully.'' ()) \<and>
        banksOf (snd (deleteBank userId bankId w)) userId =
          filter (\<lambda>b. bank_id b \<noteq> bankId) (banks usr)"
    using ne by (simp add: deleteBank_def getUsersCollection_def db usr Let_def banksOf_updateOne[OF usr])
qed

theorem deleteBank_by_id_witness:
  "db_available sample_world \<and>
   findOne (\<lambda>u. user_id u = ''u1'') (users sample_world) = Some sample_user \<and>
   ''zz'' \<notin> bank_id ` set (banks sample_user) \<and>
   ''b1'' \<in> bank_id ` set (banks sample_user) \<and>
   deleteBank ''u1'' ''zz'' sample_world = (Inr (Error ''Bank not found.''), sample_world) \<and>
   fst (deleteBank ''u1'' ''b1'' sample_world) = Inr (Success ''Bank deleted successfully.'' ()) \<and>
   banksOf (snd (deleteBank ''u1'' ''b1'' sample_world)) ''u1'' = [sample_bank\<lparr>bank_id := ''b0''\<rparr>]"
proof -
  have zz: "''zz'' \<notin> bank_id ` set (banks sample_user)"
    by (simp add: sample_user_def sample_bank_def)
  have b1: "''b1'' \<in> bank_id ` set (banks sample_user)"
    by (simp add: sample_user_def sample_bank_def)
  have flt: "filter (\<lambda>b. bank_id b \<noteq> ''b1'') (banks sample_user) = [sample_bank\<lparr>bank_id := ''b0''\<rparr>]"
    by (simp add: sample_user_def sample_bank_def)
  show ?thesis
    using deleteBank_by_id[OF sample_db sample_findOne_id, of "''zz''"]
      deleteBank_by_id[OF sample_db sample_findOne_id, of "''b1''"]
      zz b1 flt sample_db sample_findOne_id
    by simp
qed

text \<open>
  C9. With the store reachable, \<^verbatim>\<open>getBanksForUser\<close> returns the empty list for a user
  id that no document has; for an existing user whose bank names and account numbers
  decrypt, it returns one item per stored record, in order, with the record's id and the
  decrypted bankName and accountNumber.
\<close>

theorem getBanksForUser_items:
  assumes db: "db_available w"
  shows "(findOne (\<lambda>u. user_id u = userId) (users w) = None \<longrightarrow>
            getBanksForUser env userId w = Inr []) \<and>
         (\<forall>usr. findOne (\<lambda>u. user_id u = userId) (users w) = Some usr \<longrightarrow>
            (\<forall>b\<in>set (banks usr). decrypt env (bankName b) \<noteq> None \<and>
                                   decrypt env (accountNumber b) \<noteq> None) \<longrightarrow>
            (\<exists>items. getBanksForUser env userId w = Inr items \<and>
               length items = length (banks usr) \<and>
               (\<forall>i<length items.
                  item_id (items ! i) = bank_id (banks usr ! i) \<and>
                  Some (item_bankName (items ! i)) = decrypt env (bankName (banks usr ! i)) \<and>
                  Some (item_accountNumber (items ! i)) =
                    decrypt env (accountNumber (banks usr ! i)))))"
proof (intro conjI allI impI)
  assume "findOne (\<lambda>u. user_id u = userId) (users w) = None"
  then show "getBanksForUser env userId w = Inr []"
    by (simp add: getBanksForUser_def getUsersCollection_def db)
next
  fix usr
  assume usr: "findOne (\<lambda>u. user_id u = userId) (users w) = Some usr"
    and dec: "\<forall>b\<in>set (banks usr). decrypt env (bankName b) \<noteq> None \<and>
                                   decrypt env (accountNumber b) \<noteq> None"
  have item: "decrypt_item env b \<noteq> None" if "b \<in> set (banks usr)" for b
    using dec that by (auto simp: decrypt_item_def)
  define items where "items = map (\<lambda>b. the (decrypt_item env b)) (banks usr)"
  have res: "getBanksForUser env userId w = Inr items"
    by (simp add: getBanksForUser_def getUsersCollection_def db usr those_map_Some[OF item] items_def)
  have each: "item_id (items ! i) = bank_id (banks usr ! i) \<and>
        Some (item_bankName (items ! i)) = decrypt env (bankName (banks usr ! i)) \<and>
        Some (item_accountNumber (items ! i)) = decrypt env (accountNumber (banks usr ! i))"
    if "i < length items" for i
  proof -
    from that have i: "i < length (banks usr)" by (simp add: items_def)
    then have "banks usr ! i \<in> set (banks usr)" by simp
    with dec obtain n a where "decrypt env (bankName (banks usr ! i)) = Some n"
      "decrypt env (accountNumber (banks usr ! i)) = Some a" by auto
    then show ?thesis
      using i by (simp add: items_def decrypt_item_Some)
  qed
  show "\<exists>items. getBanksForUser env userId w = Inr items \<and>
               length items = length (banks usr) \<and>
               (\<forall>i<length items.
                  item_id (items ! i) = bank_id (banks usr ! i) \<and>
                  Some (item_bankName (items ! i)) = decrypt env (bankName (banks usr ! i)) \<and>
                  Some (item_accountNumber (items ! i)) =
                    decrypt env (accountNumber (banks usr ! i)))"
    using res each by (intro exI[of _ items]) (simp add: items_def)
qed

theorem getBanksForUser_items_witness:
  "db_available sample_world \<and>
   getBanksForUser sample_env ''nobody'' sample_world = Inr [] \<and>
   getBanksForUser sample_env ''u1'' sample_world =
     Inr [\<lparr>item_id = ''b0'', item_bankName = ''Bank'', item_accountNumber = ''12345''\<rparr>,
          \<lparr>item_id = ''b1'', item_bankName = ''Bank'', item_accountNumber = ''12345''\<rparr>]"
proof -
  have none: "findOne (\<lambda>u. user_id u = ''nobody'') (users sample_world) = None"
    by (simp add: findOne_def sample_world_def sample_user_def)
  have dec: "\<forall>b\<in>set (banks sample_user). decrypt sample_env (bankName b) \<noteq> None \<and>
               decrypt sample_env (accountNumber b) \<noteq> None"
    by (simp add: sample_user_def sample_bank_def sample_decrypt_bankName sample_decrypt_accountNumber)
  from getBanksForUser_items[OF sample_db, of "''u1''" sample_env] sample_findOne_id dec
  obtain items where items: "getBanksForUser sample_env ''u1'' sample_world = Inr items"
    and len: "length items = length (banks sample_user)"
    and each: "\<forall>i<length items. item_id (items ! i) = bank_id (banks sample_user ! i) \<and>
                  Some (item_bankName (items ! i)) = decrypt sample_env (bankName (banks sample_user ! i)) \<and>
                  Some (item_accountNumber (items ! i)) =
                    decrypt sample_env (accountNumber (banks sample_user ! i))"
    by blast
  from len have len2: "length items = 2"
    by (simp add: sample_user_def)
  then obtain x y where xy: "items = [x, y]"
    by (auto simp: length_Suc_conv numeral_2_eq_2)
  from each[rule_format, of 0] each[rule_format, of 1] xy
  have "x = \<lparr>item_id = ''b0'', item_bankName = ''Bank'', item_accountNumber = ''12345''\<rparr>"
    and "y = \<lparr>item_id = ''b1'', item_bankName = ''Bank'', item_accountNumber = ''12345''\<rparr>"
    by (simp_all add: sample_user_def sample_bank_def sample_decrypt_bankName sample_decrypt_accountNumber)
  with items xy getBanksForUser_items[OF sample_db, of "''nobody''" sample_env] none sample_db
  show ?thesis by simp
qed

subsection \<open>Creating a user\<close>

text \<open>
  C7. The uniqueness check of \<^verbatim>\<open>createUser\<close> uses the username as the source of a
  regular expression, unescaped. With the username \<^verbatim>\<open>a+b\<close> stored, creating
  \<^verbatim>\<open>A+B\<close>, which differs only by case, is not refused: the expression
  \<^verbatim>\<open>^A+B$\<close> does not match \<^verbatim>\<open>a+b\<close>, and a second user is inserted. (A name
  without operators, such as \<^verbatim>\<open>Alice\<close> against \<^verbatim>\<open>alice\<close>, is refused, see
  \<open>createUser_plain_case_variant_refused\<close>.)
\<close>

theorem createUser_case_variant_accepted:
  "fst (createUser sample_env \<lparr>new_username = ''A+B'', new_password = ''password2''\<rparr>
         (snd (createUser sample_env \<lparr>new_username = ''a+b'', new_password = ''password1''\<rparr>
                empty_world))) =
     Inr (Success (''User '' @ [CHR 0x27] @ ''A+B'' @ [CHR 0x27] @
                   '' created successfully! You can now log in.'')
            \<lparr>user_id = ''id-2'', username = ''A+B'', banks = []\<rparr>) \<and>
   map username (users (snd (createUser sample_env \<lparr>new_username = ''A+B'', new_password = ''password2''\<rparr>
         (snd (createUser sample_env \<lparr>new_username = ''a+b'', new_password = ''password1''\<rparr>
                empty_world))))) = [''a+b'', ''A+B'']"
  unfolding createUser_first
  by (simp add: createUser_def createUserSchema_def getUsersCollection_def
      sample_env_def username_pattern_def regExp_i_fragment_def rx_atom_of_def rx_quant_of_def
      findOne_def insertOne_def encrypt_st_def encryption_encrypt_def toy_cipher_def
      toUpperCase_char_def userToReturn_def userPublic.truncate_def Let_def)

end
